theory Spec2Isabelle
  imports Main "HOL-Library.Word" "HOL-Library.Char_ord" "HOL-Library.List_Lexorder"
begin

section \<open>Paths and the filesystem (pathlib as the commands use it)\<close>

text \<open>
  The commands of \<^verbatim>\<open>bin/mb.py\<close> and \<^verbatim>\<open>bin/assets.py\<close> touch the filesystem through
  \<^verbatim>\<open>pathlib.Path\<close>: \<^verbatim>\<open>joinpath\<close>, \<^verbatim>\<open>parent\<close>, \<^verbatim>\<open>exists\<close>, \<^verbatim>\<open>is_file\<close>,
  \<^verbatim>\<open>mkdir(parents=True, exist_ok=True)\<close> and \<^verbatim>\<open>write_bytes\<close>. A path is the pair pathlib
  keeps of it: the root (\<open>''''\<close> for a relative path, \<open>''/''\<close>, or \<open>''//''\<close>) and the
  segments, with empty and \<open>''.''\<close> segments dropped when a string is parsed.
  The filesystem is a map from paths to nodes; the path with no segments (the root, or
  the working directory) is always a directory. Symbolic links and \<open>''..''\<close> resolution
  are outside the model: two different path values are two different files. A path is
  looked up as a whole, and only its parent is consulted when it is created: where a
  regular file stands higher up, an operation fails as on the host, but the exception
  can name another path or be \<^verbatim>\<open>FileNotFoundError\<close> for the host's
  \<^verbatim>\<open>NotADirectoryError\<close>.
\<close>

type_synonym bytes = "8 word list"

record pure_path =
  anchor :: string
  segments :: "string list"

datatype node = Dir | File bytes

type_synonym fs = "pure_path \<rightharpoonup> node"

datatype error =
    RuntimeError string
  | ValueError string
  | FileExistsError pure_path
  | FileNotFoundError pure_path
  | NotADirectoryError pure_path
  | IsADirectoryError pure_path
  | ExternalError string

text \<open>\<^verbatim>\<open>str.split('/')\<close>.\<close>

fun split_sep :: "string \<Rightarrow> string list" where
  "split_sep [] = [[]]"
| "split_sep (c # cs) =
     (if c = CHR ''/'' then [] # split_sep cs
      else (case split_sep cs of [] \<Rightarrow> [[c]] | s # ss \<Rightarrow> (c # s) # ss))"

text \<open>
  \<^verbatim>\<open>posixpath.splitroot\<close>, the root only: one leading slash, or three and more, give
  \<open>''/''\<close>; exactly two give \<open>''//''\<close>.
\<close>

definition splitroot :: "string \<Rightarrow> string" where
  "splitroot p =
     (case p of
        [] \<Rightarrow> []
      | c1 # r1 \<Rightarrow>
          if c1 \<noteq> CHR ''/'' then []
          else (case r1 of
                  [] \<Rightarrow> ''/''
                | c2 # r2 \<Rightarrow>
                    if c2 \<noteq> CHR ''/'' then ''/''
                    else (case r2 of
                            [] \<Rightarrow> ''//''
                          | c3 # _ \<Rightarrow> if c3 = CHR ''/'' then ''/'' else ''//'')))"

text \<open>
  Parsing a string into a path. The segments are those of the part after the root;
  since empty segments are dropped, splitting the whole string gives the same list.
\<close>

definition parse_path :: "string \<Rightarrow> pure_path" where
  "parse_path s =
     \<lparr>anchor = splitroot s,
      segments = filter (\<lambda>x. x \<noteq> [] \<and> x \<noteq> ''.'') (split_sep s)\<rparr>"

text \<open>\<^verbatim>\<open>Path.joinpath(name)\<close>: an absolute \<open>name\<close> replaces the path it is joined to.\<close>

definition joinpath :: "pure_path \<Rightarrow> string \<Rightarrow> pure_path" where
  "joinpath p s =
     (let q = parse_path s
      in if anchor q \<noteq> [] then q else p\<lparr>segments := segments p @ segments q\<rparr>)"

text \<open>\<^verbatim>\<open>Path.parent\<close>: the parent of a path with no segments is the path itself.\<close>

definition parent :: "pure_path \<Rightarrow> pure_path" where
  "parent p = p\<lparr>segments := butlast (segments p)\<rparr>"

definition stat :: "pure_path \<Rightarrow> fs \<Rightarrow> node option" where
  "stat p fs = (if segments p = [] then Some Dir else fs p)"

definition path_exists :: "pure_path \<Rightarrow> fs \<Rightarrow> bool" where
  "path_exists p fs = (stat p fs \<noteq> None)"

definition is_dir :: "pure_path \<Rightarrow> fs \<Rightarrow> bool" where
  "is_dir p fs = (stat p fs = Some Dir)"

definition is_file :: "pure_path \<Rightarrow> fs \<Rightarrow> bool" where
  "is_file p fs = (case stat p fs of Some (File _) \<Rightarrow> True | _ \<Rightarrow> False)"

text \<open>\<^verbatim>\<open>os.mkdir\<close>: one level, failing when the path exists or its parent is no directory.\<close>

definition os_mkdir :: "pure_path \<Rightarrow> fs \<Rightarrow> error + fs" where
  "os_mkdir p fs =
     (if stat p fs \<noteq> None then Inl (FileExistsError p)
      else (case stat (parent p) fs of
              None \<Rightarrow> Inl (FileNotFoundError p)
            | Some (File _) \<Rightarrow> Inl (NotADirectoryError p)
            | Some Dir \<Rightarrow> Inr (fs(p \<mapsto> Dir))))"

fun is_FileNotFoundError :: "error \<Rightarrow> bool" where
  "is_FileNotFoundError (FileNotFoundError _) = True"
| "is_FileNotFoundError _ = False"

text \<open>\<^verbatim>\<open>Path.mkdir(parents=False, exist_ok=True)\<close>, the last step of the recursive one.\<close>

definition mkdir_leaf :: "pure_path \<Rightarrow> fs \<Rightarrow> error + fs" where
  "mkdir_leaf p fs =
     (case os_mkdir p fs of
        Inr fs' \<Rightarrow> Inr fs'
      | Inl e \<Rightarrow>
          if is_FileNotFoundError e then Inl e
          else if is_dir p fs then Inr fs else Inl e)"

text \<open>
  \<^verbatim>\<open>Path.mkdir(parents=True, exist_ok=True)\<close>, as every call in the sources has it:
  on \<^verbatim>\<open>FileNotFoundError\<close> the parent is made first; any other \<^verbatim>\<open>OSError\<close> is
  swallowed when the path is a directory already.
\<close>

function mkdir :: "pure_path \<Rightarrow> fs \<Rightarrow> error + fs" where
  "mkdir p fs =
     (case os_mkdir p fs of
        Inr fs' \<Rightarrow> Inr fs'
      | Inl e \<Rightarrow>
          if is_FileNotFoundError e then
            (if parent p = p then Inl e
             else (case mkdir (parent p) fs of
                     Inl e' \<Rightarrow> Inl e'
                   | Inr fs' \<Rightarrow> mkdir_leaf p fs'))
          else if is_dir p fs then Inr fs else Inl e)"
  by pat_completeness auto
termination
proof (relation "measure (\<lambda>(p, fs). length (segments p))")
  show "wf (measure (\<lambda>(p, fs). length (segments p)))"
    by simp
next
  fix p :: pure_path and fs :: fs and e :: error
  assume "parent p \<noteq> p"
  then have "segments p \<noteq> []"
    by (auto simp: parent_def)
  then show "((parent p, fs), (p, fs)) \<in> measure (\<lambda>(p, fs). length (segments p))"
    by (simp add: parent_def)
qed

declare mkdir.simps [simp del]

text \<open>
  \<^verbatim>\<open>Path.write_bytes\<close>: \<^verbatim>\<open>open(path, 'wb')\<close> fails on a directory and when the parent
  is missing or is a file; otherwise the file is created or replaced.
\<close>

definition write_bytes :: "pure_path \<Rightarrow> bytes \<Rightarrow> fs \<Rightarrow> error + fs" where
  "write_bytes p data fs =
     (if is_dir p fs then Inl (IsADirectoryError p)
      else (case stat (parent p) fs of
              None \<Rightarrow> Inl (FileNotFoundError p)
            | Some (File _) \<Rightarrow> Inl (NotADirectoryError p)
            | Some Dir \<Rightarrow> Inr (fs(p \<mapsto> File data))))"

section \<open>Glob patterns (fnmatch as the commands use it)\<close>

text \<open>
  \<^verbatim>\<open>Find.iter_matching_contents\<close> and \<^verbatim>\<open>All._get_paths\<close> match names with the standard
  library's \<^verbatim>\<open>fnmatch\<close>: the pattern goes through \<^verbatim>\<open>os.path.normcase\<close>, is translated
  to a matcher for the whole string, and on a host whose \<^verbatim>\<open>os.path\<close> is not
  \<^verbatim>\<open>posixpath\<close> every candidate goes through \<^verbatim>\<open>normcase\<close> too. The host's \<^verbatim>\<open>os.path\<close>
  module is a parameter of the model; \<^verbatim>\<open>ntpath.normcase\<close> turns slashes into
  backslashes and lowers the case (of ASCII letters, here: the code of a capital
  letter plus 32, which sets its bit of weight 32).
\<close>

datatype os_path = posixpath | ntpath

definition lower_char :: "char \<Rightarrow> char" where
  "lower_char c =
     (if CHR ''A'' \<le> c \<and> c \<le> CHR ''Z'' then
        (case c of Char b0 b1 b2 b3 b4 b5 b6 b7 \<Rightarrow> Char b0 b1 b2 b3 b4 True b6 b7)
      else c)"

definition normcase :: "os_path \<Rightarrow> string \<Rightarrow> string" where
  "normcase os s =
     (case os of
        posixpath \<Rightarrow> s
      | ntpath \<Rightarrow> map (\<lambda>c. if c = CHR ''/'' then CHR 0x5C else lower_char c) s)"

datatype tok = Star | AnyChar | Lit char | Class bool "(char \<times> char) list"

text \<open>
  The members of a character class, as ranges (a single character is the range from
  itself to itself). A hyphen between two characters makes a range, except as the first
  character of the class or right after a range; a range whose ends are out of order
  is dropped.
\<close>

fun class_items :: "string \<Rightarrow> (char \<times> char) list" where
  "class_items (x # h # y # rest) =
     (if h = CHR ''-'' then (if x \<le> y then [(x, y)] else []) @ class_items rest
      else (x, x) # class_items (h # y # rest))"
| "class_items [x, h] = [(x, x), (h, h)]"
| "class_items [x] = [(x, x)]"
| "class_items [] = []"

text \<open>
  The class of the text between the brackets. A leading \<open>!\<close> negates. When dropped
  ranges leave a \<open>!\<close> in front of a class that was not negated, the translation reads
  that \<open>!\<close> as a negation as well.
\<close>

definition class_tok :: "string \<Rightarrow> tok" where
  "class_tok stuff =
     (case stuff of
        [] \<Rightarrow> Class False []
      | c # body \<Rightarrow>
          if c = CHR ''!'' then Class True (class_items body)
          else (case class_items stuff of
                  [] \<Rightarrow> Class False []
                | (lo, hi) # items \<Rightarrow>
                    if lo = CHR ''!'' then
                      (if hi = CHR ''!'' then Class True items
                       else Class True ((CHR ''-'', CHR ''-'') # (hi, hi) # items))
                    else Class False ((lo, hi) # items)))"

fun find_close :: "string \<Rightarrow> nat option" where
  "find_close [] = None"
| "find_close (c # cs) = (if c = CHR '']'' then Some 0 else map_option Suc (find_close cs))"

text \<open>
  The index of the bracket that closes a class, in the text after the opening bracket:
  a \<open>!\<close> and then a \<open>]\<close> right at the start do not close it.
\<close>

definition class_end :: "string \<Rightarrow> nat option" where
  "class_end rest =
     (let j0 = (case rest of [] \<Rightarrow> 0 | c # _ \<Rightarrow> if c = CHR ''!'' then 1 else 0);
          j1 = (case drop j0 rest of [] \<Rightarrow> j0 | c # _ \<Rightarrow> if c = CHR '']'' then Suc j0 else j0)
      in map_option (\<lambda>k. j1 + k) (find_close (drop j1 rest)))"

text \<open>
  \<^verbatim>\<open>fnmatch.translate\<close>: consecutive stars are one star, an opening bracket with no
  closing one is a literal bracket, every other character stands for itself.
\<close>

fun translate :: "string \<Rightarrow> tok list" where
  "translate [] = []"
| "translate (c # rest) =
     (if c = CHR ''*'' then
        (case translate rest of Star # ts \<Rightarrow> Star # ts | ts \<Rightarrow> Star # ts)
      else if c = CHR ''?'' then AnyChar # translate rest
      else if c = CHR ''['' then
        (case class_end rest of
           None \<Rightarrow> Lit c # translate rest
         | Some j \<Rightarrow> class_tok (take j rest) # translate (drop (Suc j) rest))
      else Lit c # translate rest)"

definition class_match :: "bool \<Rightarrow> (char \<times> char) list \<Rightarrow> char \<Rightarrow> bool" where
  "class_match neg items c = (list_ex (\<lambda>(lo, hi). lo \<le> c \<and> c \<le> hi) items \<noteq> neg)"

text \<open>The compiled pattern's \<^verbatim>\<open>match\<close>: the pattern has to match the whole string.\<close>

fun match_toks :: "tok list \<Rightarrow> string \<Rightarrow> bool" where
  "match_toks [] s = (s = [])"
| "match_toks (Star # ts) [] = match_toks ts []"
| "match_toks (Star # ts) (c # cs) = (match_toks ts (c # cs) \<or> match_toks (Star # ts) cs)"
| "match_toks (AnyChar # ts) [] = False"
| "match_toks (AnyChar # ts) (c # cs) = match_toks ts cs"
| "match_toks (Lit a # ts) [] = False"
| "match_toks (Lit a # ts) (c # cs) = (a = c \<and> match_toks ts cs)"
| "match_toks (Class neg items # ts) [] = False"
| "match_toks (Class neg items # ts) (c # cs) = (class_match neg items c \<and> match_toks ts cs)"

definition compile_pattern :: "string \<Rightarrow> string \<Rightarrow> bool" where
  "compile_pattern pat = match_toks (translate pat)"

text \<open>\<^verbatim>\<open>fnmatch.filter(names, pat)\<close>.\<close>

definition fnmatch_filter :: "os_path \<Rightarrow> string list \<Rightarrow> string \<Rightarrow> string list" where
  "fnmatch_filter os names pat =
     (let match = compile_pattern (normcase os pat)
      in if os = posixpath then filter match names
         else filter (\<lambda>name. match (normcase os name)) names)"

section \<open>The world the commands run in\<close>

text \<open>
  A command reads and changes the filesystem, calls the client's fetch capability
  (\<^verbatim>\<open>DataClient.get_raw_data\<close>, \<^verbatim>\<open>DataClient.get_asset\<close>), prints and logs. The world
  records all four: \<open>fetched\<close> is the list of names the fetch capability was invoked
  with. A command returns \<open>None\<close> when it returns, \<open>Some e\<close> when it raises \<open>e\<close>,
  and the world it leaves behind in both cases.

  The client is not among the sources: the fetch capability is a parameter, a function
  from the name to the bytes or to the exception it raises. So is the manifest
  (\<^verbatim>\<open>raw_data_info\<close>, the rows of \<^verbatim>\<open>DownloadRawDataMB\<close>) and the catalog's
  \<^verbatim>\<open>bundle_names\<close>.
\<close>

datatype log_lvl = DEBUG | INFO

datatype log_event =
    LogSaving log_lvl pure_path
  | LogAllDownloaded
  | LogAnnounce bool nat int
  | LogWouldDownload
  | LogDownloadingBundles nat
  | LogSavingBundle string

record world =
  files :: fs
  fetched :: "string list"
  stdout :: "string list"
  logged :: "log_event list"

type_synonym client = "string \<Rightarrow> error + bytes"

record row =
  FilePath :: string

text \<open>
  \<^verbatim>\<open>xs[:n]\<close>: a negative \<open>n\<close> counts from the end. \<^verbatim>\<open>if self.limit:\<close> is false for
  \<^verbatim>\<open>None\<close> and for 0.
\<close>

definition py_slice_to :: "'a list \<Rightarrow> int \<Rightarrow> 'a list" where
  "py_slice_to xs n = (if 0 \<le> n then take (nat n) xs else take (nat (int (length xs) + n)) xs)"

definition apply_limit :: "int option \<Rightarrow> 'a list \<Rightarrow> 'a list" where
  "apply_limit lim xs =
     (case lim of
        None \<Rightarrow> xs
      | Some n \<Rightarrow> if n = 0 then xs else py_slice_to xs n)"

section \<open>bin/mb.py: the Save commands\<close>

text \<open>
  The options of \<^verbatim>\<open>Save\<close>, \<^verbatim>\<open>File\<close> and \<^verbatim>\<open>All\<close> (\<open>output_mb\<close> is \<^verbatim>\<open>output\<close>, a
  word Isabelle reserves). The command-line parser gives
  \<^verbatim>\<open>All.limit\<close> and \<^verbatim>\<open>All.parallel\<close> the type \<^verbatim>\<open>NumRange(min=1)\<close>; \<^verbatim>\<open>limit\<close> is
  \<^verbatim>\<open>None\<close> when the option is not given.
\<close>

record mb_Save =
  output_mb :: pure_path
  force :: bool

record mb_File = mb_Save +
  name :: string
  skip_validation :: bool

record mb_All = mb_Save +
  pattern :: "string option"
  parallel :: int
  limit :: "int option"
  dry_run :: bool

definition Save_save ::
  "'a mb_Save_scheme \<Rightarrow> string \<Rightarrow> bytes \<Rightarrow> log_lvl \<Rightarrow> world \<Rightarrow> error option \<times> world" where
  "Save_save self nm data log_lvl w =
     (let path = joinpath (output_mb self) nm
      in case mkdir (parent path) (files w) of
           Inl e \<Rightarrow> (Some e, w)
         | Inr fs1 \<Rightarrow>
             (let w1 = w\<lparr>files := fs1, logged := logged w @ [LogSaving log_lvl path]\<rparr>
              in case write_bytes path data fs1 of
                   Inl e \<Rightarrow> (Some e, w1)
                 | Inr fs2 \<Rightarrow> (None, w1\<lparr>files := fs2\<rparr>)))"

definition File_main :: "mb_File \<Rightarrow> client \<Rightarrow> row list \<Rightarrow> world \<Rightarrow> error option \<times> world" where
  "File_main self get_raw_data raw_data_info w =
     (if \<not> force self \<and> path_exists (joinpath (output_mb self) (name self)) (files w) then
        (Some (RuntimeError (name self)), w)
      else if \<not> skip_validation self
              \<and> \<not> list_ex (\<lambda>row. FilePath row = name self) raw_data_info then
        (Some (ValueError (name self)), w)
      else
        (let w1 = w\<lparr>fetched := fetched w @ [name self]\<rparr>
         in case get_raw_data (name self) of
              Inl e \<Rightarrow> (Some e, w1)
            | Inr data \<Rightarrow> Save_save self (name self) data INFO w1))"

definition All_get_paths :: "os_path \<Rightarrow> mb_All \<Rightarrow> row list \<Rightarrow> fs \<Rightarrow> string list" where
  "All_get_paths os self rows fs =
     (let to_download =
            (if force self then map FilePath rows
             else map FilePath
                    (filter (\<lambda>row. \<not> path_exists (joinpath (output_mb self) (FilePath row)) fs) rows));
          to_download =
            (case pattern self of
               None \<Rightarrow> to_download
             | Some pat \<Rightarrow> if pat = [] then to_download else fnmatch_filter os to_download pat)
      in apply_limit (limit self) to_download)"

text \<open>
  \<^verbatim>\<open>All._download\<close>: every path is submitted to the pool, so the fetch capability is
  invoked for every one of them, whatever happens in the loop (leaving the
  \<^verbatim>\<open>with ThreadPoolExecutor\<close> block waits for the pool's outstanding work). The loop
  takes the futures as they complete: \<^verbatim>\<open>future.result()\<close> raises the task's exception,
  otherwise the bytes are saved. \<^verbatim>\<open>FutureWaiter\<close> (\<^verbatim>\<open>mm.utils\<close>) is not among the
  sources; it is taken to hand out the futures as they complete, as the standard
  library's \<^verbatim>\<open>as_completed\<close> does in \<^verbatim>\<open>Save.bundles\<close>. The order of completion is the
  scheduler's: \<open>as_completed\<close> gives, for the submitted paths, the paths in the order
  their futures complete.
\<close>

fun download_loop ::
  "'a mb_Save_scheme \<Rightarrow> client \<Rightarrow> string list \<Rightarrow> world \<Rightarrow> error option \<times> world" where
  "download_loop self get_raw_data [] w = (None, w)"
| "download_loop self get_raw_data (path # rest) w =
     (case get_raw_data path of
        Inl e \<Rightarrow> (Some e, w)
      | Inr data \<Rightarrow>
          (case Save_save self path data DEBUG w of
             (Some e, w') \<Rightarrow> (Some e, w')
           | (None, w') \<Rightarrow> download_loop self get_raw_data rest w'))"

definition All_download ::
  "mb_All \<Rightarrow> client \<Rightarrow> (string list \<Rightarrow> string list) \<Rightarrow> string list \<Rightarrow> world
     \<Rightarrow> error option \<times> world" where
  "All_download self get_raw_data as_completed paths w =
     download_loop self get_raw_data (as_completed paths) (w\<lparr>fetched := fetched w @ paths\<rparr>)"

definition All_main ::
  "os_path \<Rightarrow> mb_All \<Rightarrow> client \<Rightarrow> row list \<Rightarrow> (string list \<Rightarrow> string list) \<Rightarrow> world
     \<Rightarrow> error option \<times> world" where
  "All_main os self get_raw_data raw_data_info as_completed w =
     (let paths = All_get_paths os self raw_data_info (files w)
      in if paths = [] then (None, w\<lparr>logged := logged w @ [LogAllDownloaded]\<rparr>)
         else
           (let w1 = w\<lparr>logged := logged w
                          @ [LogAnnounce (dry_run self) (length paths) (parallel self)]\<rparr>
            in if dry_run self then
                 (None, w1\<lparr>logged := logged w1 @ [LogWouldDownload],
                            stdout := stdout w1 @ map (\<lambda>path. '' - '' @ path) (sort paths)\<rparr>)
               else All_download self get_raw_data as_completed paths w1))"

section \<open>bin/assets.py: Save, Find and Extract\<close>

text \<open>
  \<^verbatim>\<open>Save\<close> of \<^verbatim>\<open>bin/assets.py\<close> has options of the same names as the one of
  \<^verbatim>\<open>bin/mb.py\<close>; its fields carry the suffix \<open>_assets\<close>. Its \<^verbatim>\<open>limit\<close> has no range.
\<close>

record assets_Save =
  output_assets :: pure_path
  limit_assets :: "int option"
  force_assets :: bool
  parallel_assets :: int

definition Save_get_bundle_names :: "assets_Save \<Rightarrow> string list \<Rightarrow> fs \<Rightarrow> string list" where
  "Save_get_bundle_names self bundle_names fs =
     (let out_dir = joinpath (output_assets self) ''bundles''
      in if force_assets self \<or> \<not> path_exists out_dir fs then bundle_names
         else
           (let to_download =
                  filter (\<lambda>name. \<not> path_exists (joinpath out_dir name) fs) bundle_names
            in apply_limit (limit_assets self) to_download))"

text \<open>
  \<^verbatim>\<open>Save.bundles\<close>. In the loop the destination is computed and the name logged before
  \<^verbatim>\<open>future.result()\<close> is evaluated.
\<close>

fun bundles_loop :: "pure_path \<Rightarrow> client \<Rightarrow> string list \<Rightarrow> world \<Rightarrow> error option \<times> world" where
  "bundles_loop out_dir get_asset [] w = (None, w)"
| "bundles_loop out_dir get_asset (bundle_name # rest) w =
     (let out_path = joinpath out_dir bundle_name;
          w1 = w\<lparr>logged := logged w @ [LogSavingBundle bundle_name]\<rparr>
      in case get_asset bundle_name of
           Inl e \<Rightarrow> (Some e, w1)
         | Inr data \<Rightarrow>
             (case write_bytes out_path data (files w1) of
                Inl e \<Rightarrow> (Some e, w1)
              | Inr fs' \<Rightarrow> bundles_loop out_dir get_asset rest (w1\<lparr>files := fs'\<rparr>)))"

definition Save_bundles ::
  "assets_Save \<Rightarrow> client \<Rightarrow> string list \<Rightarrow> (string list \<Rightarrow> string list) \<Rightarrow> world
     \<Rightarrow> error option \<times> world" where
  "Save_bundles self get_asset bundle_names as_completed w =
     (let out_dir = joinpath (output_assets self) ''bundles''
      in case mkdir out_dir (files w) of
           Inl e \<Rightarrow> (Some e, w)
         | Inr fs1 \<Rightarrow>
             (let names = Save_get_bundle_names self bundle_names fs1;
                  w1 = w\<lparr>files := fs1,
                         fetched := fetched w @ names,
                         logged := logged w @ [LogDownloadingBundles (length names)]\<rparr>
              in bundles_loop out_dir get_asset (as_completed names) w1))"

text \<open>
  \<^verbatim>\<open>BundleCommand.iter_src_paths\<close>: the input file itself, or every file \<^verbatim>\<open>os.walk\<close>
  finds under the input directory (\<open>walk_files\<close>, in the order the host lists them).
\<close>

record BundleCommand =
  input_path :: pure_path

record assets_Find = BundleCommand +
  pattern_find :: string

record assets_Extract = BundleCommand +
  output_extract :: pure_path
  parallel_extract :: int

definition iter_src_paths ::
  "'a BundleCommand_scheme \<Rightarrow> (pure_path \<Rightarrow> pure_path list) \<Rightarrow> fs \<Rightarrow> pure_path list" where
  "iter_src_paths self walk_files fs =
     (if is_file (input_path self) fs then [input_path self] else walk_files (input_path self))"

text \<open>
  \<^verbatim>\<open>Find.iter_bundle_contents\<close>. \<^verbatim>\<open>Bundle\<close> is not among the sources: \<open>contents\<close> gives
  the content paths of a source file.
\<close>

definition Find_iter_bundle_contents ::
  "assets_Find \<Rightarrow> (pure_path \<Rightarrow> pure_path list) \<Rightarrow> (pure_path \<Rightarrow> string list) \<Rightarrow> fs
     \<Rightarrow> (pure_path \<times> string) list" where
  "Find_iter_bundle_contents self walk_files contents fs =
     concat (map (\<lambda>src_path. map (\<lambda>path. (src_path, path)) (contents src_path))
                 (iter_src_paths self walk_files fs))"

definition Find_iter_matching_contents ::
  "os_path \<Rightarrow> assets_Find \<Rightarrow> (pure_path \<Rightarrow> pure_path list) \<Rightarrow> (pure_path \<Rightarrow> string list) \<Rightarrow> fs
     \<Rightarrow> (pure_path \<times> string) list" where
  "Find_iter_matching_contents os self walk_files contents fs =
     (let match = compile_pattern (normcase os (pattern_find self))
      in if os = posixpath then
           filter (\<lambda>(src_path, content_path). match content_path)
             (Find_iter_bundle_contents self walk_files contents fs)
         else
           filter (\<lambda>(src_path, content_path). match (normcase os content_path))
             (Find_iter_bundle_contents self walk_files contents fs))"

text \<open>
  \<^verbatim>\<open>Extract.main\<close>. \<^verbatim>\<open>BundleExtractor\<close> is not among the sources: \<open>extract_bundle\<close>
  gives, for the output directory, a source file and the filesystem, the exception the
  extraction raises (if any) and the filesystem it leaves. Each task runs in a process
  of its own; the model runs the tasks one after the other in the order \<open>schedule\<close>
  gives them. A future holds its task's outcome. \<^verbatim>\<open>wait(futures)\<close> returns when all
  futures are done, and \<^verbatim>\<open>main\<close> drops what it returns.
\<close>

fun run_tasks ::
  "(pure_path \<Rightarrow> fs \<Rightarrow> error option \<times> fs) \<Rightarrow> pure_path list \<Rightarrow> fs
     \<Rightarrow> (pure_path \<times> error option) list \<times> fs" where
  "run_tasks task [] fs = ([], fs)"
| "run_tasks task (src_path # rest) fs =
     (let (outcome, fs1) = task src_path fs;
          (futures, fs2) = run_tasks task rest fs1
      in ((src_path, outcome) # futures, fs2))"

definition wait :: "'a list \<Rightarrow> 'a list \<times> 'a list" where
  "wait futures = (futures, [])"

definition Extract_futures ::
  "assets_Extract \<Rightarrow> (pure_path \<Rightarrow> pure_path \<Rightarrow> fs \<Rightarrow> error option \<times> fs)
     \<Rightarrow> (pure_path \<Rightarrow> pure_path list) \<Rightarrow> (pure_path list \<Rightarrow> pure_path list) \<Rightarrow> world
     \<Rightarrow> (pure_path \<times> error option) list \<times> fs" where
  "Extract_futures self extract_bundle walk_files schedule w =
     run_tasks (extract_bundle (output_extract self))
       (schedule (iter_src_paths self walk_files (files w))) (files w)"

definition Extract_main ::
  "assets_Extract \<Rightarrow> (pure_path \<Rightarrow> pure_path \<Rightarrow> fs \<Rightarrow> error option \<times> fs)
     \<Rightarrow> (pure_path \<Rightarrow> pure_path list) \<Rightarrow> (pure_path list \<Rightarrow> pure_path list) \<Rightarrow> world
     \<Rightarrow> error option \<times> world" where
  "Extract_main self extract_bundle walk_files schedule w =
     (let (futures, fs') = Extract_futures self extract_bundle walk_files schedule w;
          (done, not_done) = wait futures
      in (None, w\<lparr>files := fs'\<rparr>))"

section \<open>The candidates of a plan\<close>

text \<open>
  The candidates \<^verbatim>\<open>All._get_paths\<close> plans over: the \<^verbatim>\<open>FilePath\<close> of every manifest row,
  or those of them that match \<^verbatim>\<open>--pattern\<close> when one is given.
\<close>

definition All_candidates :: "os_path \<Rightarrow> mb_All \<Rightarrow> row list \<Rightarrow> string list" where
  "All_candidates os self rows =
     (case pattern self of
        None \<Rightarrow> map FilePath rows
      | Some pat \<Rightarrow>
          if pat = [] then map FilePath rows else fnmatch_filter os (map FilePath rows) pat)"


text \<open>
  What making directories does to a filesystem: every path keeps its node, or had none
  and is a directory now.
\<close>

definition grows :: "fs \<Rightarrow> fs \<Rightarrow> bool" where
  "grows fs fs' = (\<forall>q. fs' q = fs q \<or> (fs q = None \<and> fs' q = Some Dir))"



section \<open>Sample inputs\<close>

text \<open>
  An output directory \<open>out\<close>, a manifest and a catalog of four names, and a filesystem
  that has the first of them both as a raw-data file and as a bundle.
\<close>

definition out0 :: pure_path where
  "out0 = \<lparr>anchor = [], segments = [''out'']\<rparr>"

definition rows_abcd :: "row list" where
  "rows_abcd = [\<lparr>FilePath = ''a''\<rparr>, \<lparr>FilePath = ''b''\<rparr>, \<lparr>FilePath = ''c''\<rparr>, \<lparr>FilePath = ''d''\<rparr>]"

definition fs_have_a :: fs where
  "fs_have_a =
     [\<lparr>anchor = [], segments = [''out'']\<rparr> \<mapsto> Dir,
      \<lparr>anchor = [], segments = [''out'', ''a'']\<rparr> \<mapsto> File [],
      \<lparr>anchor = [], segments = [''out'', ''bundles'']\<rparr> \<mapsto> Dir,
      \<lparr>anchor = [], segments = [''out'', ''bundles'', ''a'']\<rparr> \<mapsto> File []]"

definition world_have_a :: world where
  "world_have_a = \<lparr>files = fs_have_a, fetched = [], stdout = [], logged = []\<rparr>"

text \<open>A client that serves every name the same two bytes.\<close>

definition client_ok :: client where
  "client_ok nm = Inr [1, 2]"

text \<open>A client that fails on the name \<open>b\<close> only.\<close>

definition client_fail_b :: client where
  "client_fail_b nm = (if nm = ''b'' then Inl (ExternalError ''b'') else Inr [1, 2])"

text \<open>
  Three source containers under \<open>in\<close>; an extractor that fails on the second and writes
  one file for each of the others; a bundle that holds \<open>icons/a.png\<close>.
\<close>

definition src1 :: pure_path where
  "src1 = \<lparr>anchor = [], segments = [''in'', ''s1'']\<rparr>"

definition src2 :: pure_path where
  "src2 = \<lparr>anchor = [], segments = [''in'', ''s2'']\<rparr>"

definition src3 :: pure_path where
  "src3 = \<lparr>anchor = [], segments = [''in'', ''s3'']\<rparr>"

definition walk_in :: "pure_path \<Rightarrow> pure_path list" where
  "walk_in p = [src1, src2, src3]"

definition extract_s2_fails :: "pure_path \<Rightarrow> pure_path \<Rightarrow> fs \<Rightarrow> error option \<times> fs" where
  "extract_s2_fails out src fs =
     (if src = src2 then (Some (ExternalError ''s2''), fs)
      else (None, fs(out\<lparr>segments := segments out @ [last (segments src)]\<rparr> \<mapsto> File [])))"

definition world_empty :: world where
  "world_empty = \<lparr>files = Map.empty, fetched = [], stdout = [], logged = []\<rparr>"

definition extract_cmd :: assets_Extract where
  "extract_cmd =
     \<lparr>input_path = \<lparr>anchor = [], segments = [''in'']\<rparr>, output_extract = out0,
      parallel_extract = 4\<rparr>"

definition find_png :: assets_Find where
  "find_png = \<lparr>input_path = src1, pattern_find = ''*.PNG''\<rparr>"

definition contents_icons :: "pure_path \<Rightarrow> string list" where
  "contents_icons p = [''icons/a.png'']"

definition fs_src1 :: fs where
  "fs_src1 = [\<lparr>anchor = [], segments = [''in'']\<rparr> \<mapsto> Dir, src1 \<mapsto> File []]"

section \<open>Evaluating paths\<close>

lemmas path_eval =
  joinpath_def parse_path_def splitroot_def parent_def path_exists_def is_dir_def stat_def
  out0_def

section \<open>Planning\<close>

lemma filter_FilePath:
  "map FilePath (filter (\<lambda>row. P (FilePath row)) rows) = filter P (map FilePath rows)"
  by (induction rows) auto

lemma fnmatch_filter_filter:
  "fnmatch_filter os (filter P xs) pat = filter P (fnmatch_filter os xs pat)"
  by (simp add: fnmatch_filter_def Let_def conj_commute)

text \<open>
  \<^verbatim>\<open>All._get_paths\<close> filters by existence first and by pattern second; the two filters
  commute, so the plan is the limit applied to the candidates that are not there yet.
\<close>

lemma All_get_paths_plan:
  "All_get_paths os self rows fs =
     apply_limit (limit self)
       (if force self then All_candidates os self rows
        else filter (\<lambda>p. \<not> path_exists (joinpath (output_mb self) p) fs)
               (All_candidates os self rows))"
proof -
  let ?missing = "\<lambda>p. \<not> path_exists (joinpath (output_mb self) p) fs"
  have m: "map FilePath (filter (\<lambda>row. ?missing (FilePath row)) rows)
             = filter ?missing (map FilePath rows)"
    by (rule filter_FilePath)
  show ?thesis
    unfolding All_get_paths_def All_candidates_def Let_def m
    by (simp add: fnmatch_filter_filter split: option.splits)
qed

lemma apply_limit_pos: "1 \<le> n \<Longrightarrow> apply_limit (Some n) xs = take (nat n) xs"
  by (simp add: apply_limit_def py_slice_to_def)

text \<open>A limit that is not given, or is 0, is no limit.\<close>

lemma apply_limit_unset: "apply_limit None xs = xs" "apply_limit (Some 0) xs = xs"
  by (simp_all add: apply_limit_def)

text \<open>
  C1. Without \<^verbatim>\<open>--force\<close> and with a limit \<open>n\<close> (a count, at least 1: the range
  \<^verbatim>\<open>All.limit\<close> is parsed with, and what \<^verbatim>\<open>if self.limit\<close> takes for a limit that is
  set), the plan is the candidates that do not exist under the output directory, in
  candidate order, cut to the first \<open>n\<close> of them after that filtering. This holds for
  \<^verbatim>\<open>All._get_paths\<close> and for \<^verbatim>\<open>Save._get_bundle_names\<close>; the latter runs after
  \<^verbatim>\<open>Save.bundles\<close> has made the \<open>bundles\<close> directory, so that directory exists
  (\<open>mkdir_path_exists\<close> below).
\<close>

theorem plan_limit_after_filter:
  "1 \<le> n \<Longrightarrow>
   (\<not> force self \<and> limit self = Some n \<longrightarrow>
      All_get_paths os self rows fs =
        take (nat n)
          (filter (\<lambda>p. \<not> path_exists (joinpath (output_mb self) p) fs)
             (All_candidates os self rows)))
   \<and> (\<not> force_assets self' \<and> limit_assets self' = Some n
        \<and> path_exists (joinpath (output_assets self') ''bundles'') fs' \<longrightarrow>
      Save_get_bundle_names self' bundle_names fs' =
        take (nat n)
          (filter
             (\<lambda>nm. \<not> path_exists (joinpath (joinpath (output_assets self') ''bundles'') nm) fs')
             bundle_names))"
  by (simp add: All_get_paths_plan apply_limit_pos Save_get_bundle_names_def Let_def)

text \<open>
  The candidates \<open>[a, b, c, d]\<close>, of which \<open>a\<close> is there already, with the limit 2:
  the plan is \<open>[b, c]\<close>, for the raw-data files and for the bundles.
\<close>

theorem plan_limit_after_filter_witness:
  "All_get_paths posixpath
      \<lparr>output_mb = out0, force = False, pattern = None, parallel = 4, limit = Some 2,
       dry_run = False\<rparr>
      rows_abcd fs_have_a = [''b'', ''c'']
   \<and> Save_get_bundle_names
      \<lparr>output_assets = out0, limit_assets = Some 2, force_assets = False, parallel_assets = 4\<rparr>
      [''a'', ''b'', ''c'', ''d''] fs_have_a = [''b'', ''c'']"
  using plan_limit_after_filter [where n = 2
      and self = "\<lparr>output_mb = out0, force = False, pattern = None, parallel = 4,
                    limit = Some 2, dry_run = False\<rparr>"
      and os = posixpath and rows = rows_abcd and fs = fs_have_a
      and self' = "\<lparr>output_assets = out0, limit_assets = Some 2, force_assets = False,
                     parallel_assets = 4\<rparr>"
      and bundle_names = "[''a'', ''b'', ''c'', ''d'']" and fs' = fs_have_a]
  by (simp add: All_candidates_def rows_abcd_def fs_have_a_def joinpath_def parse_path_def
        splitroot_def out0_def path_exists_def stat_def)

text \<open>
  With \<^verbatim>\<open>--force\<close>, \<^verbatim>\<open>All._get_paths\<close> plans every candidate and cuts the plan to the
  limit.
\<close>

lemma All_get_paths_force:
  "force self \<Longrightarrow> limit self = Some n \<Longrightarrow> 1 \<le> n \<Longrightarrow>
   All_get_paths os self rows fs = take (nat n) (All_candidates os self rows)"
  by (simp add: All_get_paths_plan apply_limit_pos)

text \<open>
  C2. With \<^verbatim>\<open>--force\<close>, \<^verbatim>\<open>Save._get_bundle_names\<close> returns the catalog's names before
  it looks at the limit: for the candidates \<open>[a, b, c, d]\<close> and the limit 2 the plan is
  all four names, not the first two.
\<close>

theorem Save_get_bundle_names_force_drops_limit:
  "Save_get_bundle_names
      \<lparr>output_assets = out0, limit_assets = Some 2, force_assets = True, parallel_assets = 4\<rparr>
      [''a'', ''b'', ''c'', ''d''] fs_have_a = [''a'', ''b'', ''c'', ''d'']"
  by (simp add: Save_get_bundle_names_def)

section \<open>The single-file download\<close>

text \<open>
  C10. In \<^verbatim>\<open>File.main\<close> the check for an existing destination comes first: without
  \<^verbatim>\<open>--force\<close>, when the destination exists, the command raises the already-exists
  \<^verbatim>\<open>RuntimeError\<close> and leaves the world as it was (no fetch, no write), whatever the
  manifest holds and whether or not validation is skipped.
\<close>

theorem File_main_existing_first:
  "\<not> force self \<Longrightarrow> path_exists (joinpath (output_mb self) (name self)) (files w) \<Longrightarrow>
   File_main self get_raw_data raw_data_info w = (Some (RuntimeError (name self)), w)"
  by (simp add: File_main_def)

theorem File_main_existing_first_witness:
  "\<not> force \<lparr>output_mb = out0, force = False, name = ''a'', skip_validation = False\<rparr>
   \<and> path_exists (joinpath out0 ''a'') (files world_have_a)
   \<and> \<not> list_ex (\<lambda>row. FilePath row = ''a'') []
   \<and> File_main \<lparr>output_mb = out0, force = False, name = ''a'', skip_validation = False\<rparr>
        client_ok [] world_have_a = (Some (RuntimeError ''a''), world_have_a)"
proof -
  have e: "path_exists (joinpath out0 ''a'') (files world_have_a)"
    by (simp add: world_have_a_def fs_have_a_def joinpath_def parse_path_def splitroot_def
          out0_def path_exists_def stat_def)
  show ?thesis
    using e File_main_existing_first
      [of "\<lparr>output_mb = out0, force = False, name = ''a'', skip_validation = False\<rparr>"
          world_have_a client_ok "[]"]
    by simp
qed

text \<open>
  C3, as the spec states it, fails where the destination exists: the name \<open>a\<close> is in
  no row of the (empty) manifest and validation is not skipped, yet the error is the
  already-exists \<^verbatim>\<open>RuntimeError\<close>, not the \<^verbatim>\<open>ValueError\<close> of the validation.
\<close>

theorem File_main_validation_counterexample:
  "\<not> skip_validation \<lparr>output_mb = out0, force = False, name = ''a'', skip_validation = False\<rparr>
   \<and> \<not> list_ex (\<lambda>row. FilePath row = ''a'') []
   \<and> fst (File_main \<lparr>output_mb = out0, force = False, name = ''a'', skip_validation = False\<rparr>
            client_ok [] world_have_a) = Some (RuntimeError ''a'')
   \<and> RuntimeError ''a'' \<noteq> ValueError ''a''"
  by (simp add: File_main_def world_have_a_def fs_have_a_def joinpath_def parse_path_def
        splitroot_def out0_def path_exists_def stat_def)

text \<open>
  C3, amended. When validation is not skipped and no manifest row has the requested
  name as its \<^verbatim>\<open>FilePath\<close>, \<^verbatim>\<open>File.main\<close> fails and leaves the world as it was (the
  fetch capability is not invoked, nothing is written): with the \<^verbatim>\<open>ValueError\<close> of the
  validation when \<^verbatim>\<open>--force\<close> is given or the destination does not exist, with the
  already-exists \<^verbatim>\<open>RuntimeError\<close> otherwise.
\<close>

theorem File_main_validation_gate:
  "\<not> skip_validation self \<Longrightarrow> name self \<notin> FilePath ` set raw_data_info \<Longrightarrow>
   File_main self get_raw_data raw_data_info w =
     (Some (if \<not> force self \<and> path_exists (joinpath (output_mb self) (name self)) (files w)
            then RuntimeError (name self) else ValueError (name self)), w)"
proof -
  assume v: "\<not> skip_validation self" and m: "name self \<notin> FilePath ` set raw_data_info"
  from m have "\<not> list_ex (\<lambda>row. FilePath row = name self) raw_data_info"
    by (force simp: list_ex_iff)
  with v show ?thesis
    by (simp add: File_main_def)
qed

theorem File_main_validation_gate_witness:
  "\<not> skip_validation \<lparr>output_mb = out0, force = False, name = ''x/y.bin'', skip_validation = False\<rparr>
   \<and> ''x/y.bin'' \<notin> FilePath ` set rows_abcd
   \<and> File_main \<lparr>output_mb = out0, force = False, name = ''x/y.bin'', skip_validation = False\<rparr>
        client_ok rows_abcd world_have_a = (Some (ValueError ''x/y.bin''), world_have_a)"
proof -
  have m: "''x/y.bin'' \<notin> FilePath ` set rows_abcd"
    by (simp add: rows_abcd_def)
  have e: "\<not> path_exists (joinpath out0 ''x/y.bin'') (files world_have_a)"
    by (simp add: world_have_a_def fs_have_a_def joinpath_def parse_path_def splitroot_def
          out0_def path_exists_def stat_def)
  show ?thesis
    using m e File_main_validation_gate
      [of "\<lparr>output_mb = out0, force = False, name = ''x/y.bin'', skip_validation = False\<rparr>"
          rows_abcd client_ok world_have_a]
    by simp
qed

section \<open>Dry run\<close>

text \<open>
  C4. With \<^verbatim>\<open>--dry-run\<close>, \<^verbatim>\<open>All.main\<close> returns without invoking the fetch capability
  and without touching the filesystem, whatever the plan; for a plan that is not empty
  it prints the planned names, sorted, one to a line.
\<close>

theorem All_main_dry_run:
  "dry_run self \<Longrightarrow>
   fst (All_main os self get_raw_data raw_data_info as_completed w) = None
   \<and> fetched (snd (All_main os self get_raw_data raw_data_info as_completed w)) = fetched w
   \<and> files (snd (All_main os self get_raw_data raw_data_info as_completed w)) = files w
   \<and> (All_get_paths os self raw_data_info (files w) \<noteq> [] \<longrightarrow>
        stdout (snd (All_main os self get_raw_data raw_data_info as_completed w)) =
          stdout w
          @ map (\<lambda>path. '' - '' @ path) (sort (All_get_paths os self raw_data_info (files w))))"
  by (simp add: All_main_def Let_def)

theorem All_main_dry_run_witness:
  "dry_run \<lparr>output_mb = out0, force = False, pattern = None, parallel = 4, limit = None,
            dry_run = True\<rparr>
   \<and> All_get_paths posixpath
        \<lparr>output_mb = out0, force = False, pattern = None, parallel = 4, limit = None,
         dry_run = True\<rparr> rows_abcd (files world_have_a) = [''b'', ''c'', ''d'']
   \<and> fst (All_main posixpath
        \<lparr>output_mb = out0, force = False, pattern = None, parallel = 4, limit = None,
         dry_run = True\<rparr> client_ok rows_abcd id world_have_a) = None
   \<and> fetched (snd (All_main posixpath
        \<lparr>output_mb = out0, force = False, pattern = None, parallel = 4, limit = None,
         dry_run = True\<rparr> client_ok rows_abcd id world_have_a)) = []
   \<and> files (snd (All_main posixpath
        \<lparr>output_mb = out0, force = False, pattern = None, parallel = 4, limit = None,
         dry_run = True\<rparr> client_ok rows_abcd id world_have_a)) = fs_have_a"
proof -
  have p: "All_get_paths posixpath
        \<lparr>output_mb = out0, force = False, pattern = None, parallel = 4, limit = None,
         dry_run = True\<rparr> rows_abcd (files world_have_a) = [''b'', ''c'', ''d'']"
    by (simp add: All_get_paths_def apply_limit_def rows_abcd_def world_have_a_def
          fs_have_a_def joinpath_def parse_path_def splitroot_def out0_def path_exists_def
          stat_def)
  have w: "fetched world_have_a = [] \<and> files world_have_a = fs_have_a"
    by (simp add: world_have_a_def)
  show ?thesis
    using p w All_main_dry_run
      [of "\<lparr>output_mb = out0, force = False, pattern = None, parallel = 4, limit = None,
             dry_run = True\<rparr>" posixpath client_ok rows_abcd id world_have_a]
    by simp
qed

section \<open>Pattern matching\<close>
















lemma lower_char_idem: "lower_char (lower_char c) = lower_char c"
  by (cases c) (auto simp: lower_char_def)

lemma lower_char_slash: "lower_char c = CHR ''/'' \<longleftrightarrow> c = CHR ''/''"
  by (cases c) (auto simp: lower_char_def)

lemma normcase_nt_lower: "normcase ntpath (map lower_char s) = normcase ntpath s"
  by (induction s) (simp_all add: normcase_def lower_char_idem lower_char_slash)

text \<open>
  C6, as the spec states it, fails: no option of \<^verbatim>\<open>Find\<close> controls the folding. The
  same command with the pattern \<open>*.PNG\<close>, over the same bundle holding
  \<open>icons/a.png\<close>, finds nothing where \<^verbatim>\<open>os.path\<close> is \<^verbatim>\<open>posixpath\<close> and finds the
  entry where it is \<^verbatim>\<open>ntpath\<close>.
\<close>

theorem Find_case_policy_counterexample:
  "Find_iter_matching_contents posixpath find_png walk_in contents_icons fs_src1 = []
   \<and> Find_iter_matching_contents ntpath find_png walk_in contents_icons fs_src1
       = [(src1, ''icons/a.png'')]"
  by (simp add: Find_iter_matching_contents_def Find_iter_bundle_contents_def iter_src_paths_def
        is_file_def stat_def fs_src1_def src1_def find_png_def contents_icons_def
        compile_pattern_def normcase_def lower_char_def)

text \<open>
  C6, amended. The host's \<^verbatim>\<open>os.path\<close> decides the folding. Where it is
  \<^verbatim>\<open>posixpath\<close> the pattern is compared with the content path as both are written,
  and \<open>*.PNG\<close> does not match \<open>icons/a.png\<close>. Where it is \<^verbatim>\<open>ntpath\<close> pattern and
  content path both go through \<^verbatim>\<open>normcase\<close>, \<open>*.PNG\<close> matches \<open>icons/a.png\<close>, and
  lowering the case of the pattern changes nothing.
\<close>

theorem Find_case_policy_by_host:
  "Find_iter_matching_contents posixpath self walk_files contents fs =
     filter (\<lambda>(src_path, content_path). compile_pattern (pattern_find self) content_path)
       (Find_iter_bundle_contents self walk_files contents fs)
   \<and> Find_iter_matching_contents ntpath self walk_files contents fs =
     filter (\<lambda>(src_path, content_path).
               compile_pattern (normcase ntpath (pattern_find self)) (normcase ntpath content_path))
       (Find_iter_bundle_contents self walk_files contents fs)
   \<and> \<not> compile_pattern ''*.PNG'' ''icons/a.png''
   \<and> compile_pattern (normcase ntpath ''*.PNG'') (normcase ntpath ''icons/a.png'')
   \<and> Find_iter_matching_contents ntpath (self\<lparr>pattern_find := map lower_char (pattern_find self)\<rparr>)
         walk_files contents fs
       = Find_iter_matching_contents ntpath self walk_files contents fs"
proof -
  have a: "\<not> compile_pattern ''*.PNG'' ''icons/a.png''"
    by (simp add: compile_pattern_def)
  have b: "compile_pattern (normcase ntpath ''*.PNG'') (normcase ntpath ''icons/a.png'')"
    by (simp add: compile_pattern_def normcase_def lower_char_def)
  have c: "Find_iter_bundle_contents (self\<lparr>pattern_find := map lower_char (pattern_find self)\<rparr>)
             walk_files contents fs = Find_iter_bundle_contents self walk_files contents fs"
    by (simp add: Find_iter_bundle_contents_def iter_src_paths_def)
  show ?thesis
    using a b by (simp add: Find_iter_matching_contents_def normcase_def [of posixpath] c
                     normcase_nt_lower)
qed

section \<open>Extraction\<close>

lemma run_tasks_append:
  "run_tasks task (xs @ ys) fs =
     (fst (run_tasks task xs fs) @ fst (run_tasks task ys (snd (run_tasks task xs fs))),
      snd (run_tasks task ys (snd (run_tasks task xs fs))))"
  by (induction xs arbitrary: fs) (simp_all add: split_def Let_def)

lemma run_tasks_sources: "map fst (fst (run_tasks task xs fs)) = xs"
  by (induction xs arbitrary: fs) (simp_all add: split_def Let_def)

text \<open>
  C5, as the spec states it, fails in its last part: of three sources the second fails,
  its future holds the exception, and \<^verbatim>\<open>Extract.main\<close> returns normally, having printed
  and logged nothing. No failure is reported.
\<close>

theorem Extract_main_counterexample:
  "fst (Extract_futures extract_cmd extract_s2_fails walk_in id world_empty)
     = [(src1, None), (src2, Some (ExternalError ''s2'')), (src3, None)]
   \<and> fst (Extract_main extract_cmd extract_s2_fails walk_in id world_empty) = None
   \<and> stdout (snd (Extract_main extract_cmd extract_s2_fails walk_in id world_empty)) = []
   \<and> logged (snd (Extract_main extract_cmd extract_s2_fails walk_in id world_empty)) = []"
  by (simp add: Extract_main_def Extract_futures_def wait_def iter_src_paths_def is_file_def
        stat_def extract_cmd_def world_empty_def walk_in_def extract_s2_fails_def
        src1_def src2_def src3_def split_def)

text \<open>
  C5, amended. \<^verbatim>\<open>Extract.main\<close> returns after every scheduled task has finished: each
  source has a future that is done, and the filesystem is the one the last task left.
  A task that fails does not stop the tasks after it: the tasks \<open>ys\<close> run on the
  filesystem the tasks \<open>xs\<close> left, whatever the outcomes of \<open>xs\<close>. The command itself
  reports no failure: it returns normally and neither prints nor logs; the outcome of
  each task stays in its future.
\<close>

theorem Extract_main_waits_for_all:
  "fst (Extract_main self extract_bundle walk_files schedule w) = None
   \<and> stdout (snd (Extract_main self extract_bundle walk_files schedule w)) = stdout w
   \<and> logged (snd (Extract_main self extract_bundle walk_files schedule w)) = logged w
   \<and> files (snd (Extract_main self extract_bundle walk_files schedule w))
       = snd (Extract_futures self extract_bundle walk_files schedule w)
   \<and> map fst (fst (Extract_futures self extract_bundle walk_files schedule w))
       = schedule (iter_src_paths self walk_files (files w))
   \<and> run_tasks task (xs @ ys) fs =
       (fst (run_tasks task xs fs) @ fst (run_tasks task ys (snd (run_tasks task xs fs))),
        snd (run_tasks task ys (snd (run_tasks task xs fs))))"
  by (simp add: Extract_main_def wait_def split_def Extract_futures_def run_tasks_sources
        run_tasks_append)

section \<open>What the filesystem operations do\<close>

lemma grows_refl: "grows fs fs"
  by (simp add: grows_def)

lemma grows_trans: "grows a b \<Longrightarrow> grows b c \<Longrightarrow> grows a c"
  unfolding grows_def by metis

lemma os_mkdir_effect:
  "os_mkdir p fs = Inr fs' \<Longrightarrow> is_dir p fs' \<and> grows fs fs'"
  by (auto simp: os_mkdir_def is_dir_def stat_def grows_def split: if_splits option.splits node.splits)

lemma mkdir_leaf_effect:
  "mkdir_leaf p fs = Inr fs' \<Longrightarrow> is_dir p fs' \<and> grows fs fs'"
  by (auto simp: mkdir_leaf_def grows_refl split: sum.splits if_splits dest: os_mkdir_effect)

lemma mkdir_effect:
  "mkdir p fs = Inr fs' \<Longrightarrow> is_dir p fs' \<and> grows fs fs'"
proof (induction p fs arbitrary: fs' rule: mkdir.induct)
  case (1 p fs)
  show ?case
  proof (cases "os_mkdir p fs")
    case (Inr fs1)
    with "1.prems" have "fs' = fs1"
      by (simp add: mkdir.simps [of p fs])
    with Inr show ?thesis
      by (simp add: os_mkdir_effect)
  next
    case (Inl e)
    show ?thesis
    proof (cases "is_FileNotFoundError e")
      case False
      with Inl "1.prems" show ?thesis
        by (simp add: mkdir.simps [of p fs] grows_refl split: if_splits)
    next
      case True
      with Inl "1.prems" have ne: "parent p \<noteq> p"
        by (auto simp: mkdir.simps [of p fs] split: if_splits)
      from True Inl "1.prems" ne obtain fs1 where
        up: "mkdir (parent p) fs = Inr fs1" and leaf: "mkdir_leaf p fs1 = Inr fs'"
        by (auto simp: mkdir.simps [of p fs] split: sum.splits)
      have "grows fs fs1"
        using "1.IH" [OF Inl True ne up] by simp
      moreover have "is_dir p fs' \<and> grows fs1 fs'"
        using leaf by (rule mkdir_leaf_effect)
      ultimately show ?thesis
        by (auto intro: grows_trans)
    qed
  qed
qed

lemma mkdir_path_exists: "mkdir p fs = Inr fs' \<Longrightarrow> path_exists p fs'"
  using mkdir_effect [of p fs fs'] by (simp add: is_dir_def path_exists_def)





section \<open>Draining the completions\<close>

lemma Save_save_fetched: "fetched (snd (Save_save self nm data lvl w)) = fetched w"
  by (simp add: Save_save_def Let_def split: sum.splits)

lemma download_loop_fetched: "fetched (snd (download_loop self get xs w)) = fetched w"
proof (induction xs arbitrary: w)
  case Nil
  show ?case by simp
next
  case (Cons x xs)
  show ?case
  proof (cases "get x")
    case (Inl e)
    then show ?thesis by simp
  next
    case (Inr data)
    obtain r w' where s: "Save_save self x data DEBUG w = (r, w')"
      by (cases "Save_save self x data DEBUG w")
    have f: "fetched w' = fetched w"
      using Save_save_fetched [of self x data DEBUG w] s by simp
    show ?thesis
      using Inr s f Cons.IH [of w'] by (cases r) simp_all
  qed
qed

lemma bundles_loop_fetched: "fetched (snd (bundles_loop d get xs w)) = fetched w"
  by (induction xs arbitrary: w) (simp_all add: Let_def split: sum.splits)

lemma download_loop_append:
  "download_loop self get (xs @ ys) w =
     (case download_loop self get xs w of
        (Some e, w') \<Rightarrow> (Some e, w')
      | (None, w') \<Rightarrow> download_loop self get ys w')"
  by (induction xs arbitrary: w) (simp_all split: sum.splits prod.splits option.splits)

lemma bundles_loop_append:
  "bundles_loop d get (xs @ ys) w =
     (case bundles_loop d get xs w of
        (Some e, w') \<Rightarrow> (Some e, w')
      | (None, w') \<Rightarrow> bundles_loop d get ys w')"
  by (induction xs arbitrary: w) (simp_all add: Let_def split: sum.splits prod.splits option.splits)

text \<open>
  C8, amended. The loops of \<^verbatim>\<open>Save.bundles\<close> and \<^verbatim>\<open>All._download\<close> stop at the first
  completion that failed: when the completions \<open>xs\<close> before it were saved, the command
  raises the failed task's exception and leaves the world as it was after \<open>xs\<close>
  (\<^verbatim>\<open>Save.bundles\<close> has logged the failed name by then); nothing of the completions
  \<open>ys\<close> after it is saved and no failure is collected. Every submitted task still
  invokes the fetch capability.
\<close>

theorem drain_stops_at_first_failure:
  "get b = Inl e \<Longrightarrow>
   (bundles_loop out_dir get xs w = (None, w1) \<longrightarrow>
      bundles_loop out_dir get (xs @ b # ys) w
        = (Some e, w1\<lparr>logged := logged w1 @ [LogSavingBundle b]\<rparr>))
   \<and> (download_loop self get xs w = (None, w1) \<longrightarrow>
      download_loop self get (xs @ b # ys) w = (Some e, w1))
   \<and> fetched (snd (All_download self' get as_completed paths w)) = fetched w @ paths
   \<and> (mkdir (joinpath (output_assets self'') ''bundles'') (files w) = Inr fs1 \<longrightarrow>
      fetched (snd (Save_bundles self'' get bundle_names as_completed w))
        = fetched w @ Save_get_bundle_names self'' bundle_names fs1)"
  by (simp add: bundles_loop_append download_loop_append All_download_def Save_bundles_def
        download_loop_fetched bundles_loop_fetched Let_def)


lemma mkdir_existing_dir: "is_dir p fs \<Longrightarrow> mkdir p fs = Inr fs"
  by (subst mkdir.simps) (simp add: os_mkdir_def is_dir_def)


lemma mkdir_bundles_have_a: "mkdir (joinpath out0 ''bundles'') fs_have_a = Inr fs_have_a"
  by (rule mkdir_existing_dir) (simp add: fs_have_a_def path_eval)

lemma plan_bundles_have_a:
  "Save_get_bundle_names
     \<lparr>output_assets = out0, limit_assets = None, force_assets = False, parallel_assets = 4\<rparr>
     [''a'', ''b'', ''c''] fs_have_a = [''b'', ''c'']"
  by (simp add: Save_get_bundle_names_def apply_limit_def fs_have_a_def path_eval)

text \<open>
  C8, as the spec states it, fails: with the bundles \<open>b\<close> and \<open>c\<close> to fetch, \<open>b\<close>
  completing first and failing, \<^verbatim>\<open>Save.bundles\<close> raises the exception of \<open>b\<close>; the
  fetch of \<open>c\<close> succeeded, yet \<open>c\<close> is not saved. \<^verbatim>\<open>All._download\<close> does the same.
\<close>

theorem drain_counterexample:
  "fst (Save_bundles
          \<lparr>output_assets = out0, limit_assets = None, force_assets = False, parallel_assets = 4\<rparr>
          client_fail_b [''a'', ''b'', ''c''] id world_have_a) = Some (ExternalError ''b'')
   \<and> client_fail_b ''c'' = Inr [1, 2]
   \<and> files (snd (Save_bundles
          \<lparr>output_assets = out0, limit_assets = None, force_assets = False, parallel_assets = 4\<rparr>
          client_fail_b [''a'', ''b'', ''c''] id world_have_a))
        \<lparr>anchor = [], segments = [''out'', ''bundles'', ''c'']\<rparr> = None
   \<and> fetched (snd (Save_bundles
          \<lparr>output_assets = out0, limit_assets = None, force_assets = False, parallel_assets = 4\<rparr>
          client_fail_b [''a'', ''b'', ''c''] id world_have_a)) = [''b'', ''c'']
   \<and> fst (All_download
          \<lparr>output_mb = out0, force = False, pattern = None, parallel = 4, limit = None,
           dry_run = False\<rparr>
          client_fail_b id [''b'', ''c''] world_have_a) = Some (ExternalError ''b'')
   \<and> files (snd (All_download
          \<lparr>output_mb = out0, force = False, pattern = None, parallel = 4, limit = None,
           dry_run = False\<rparr>
          client_fail_b id [''b'', ''c''] world_have_a))
        \<lparr>anchor = [], segments = [''out'', ''c'']\<rparr> = None"
proof -
  have w: "files world_have_a = fs_have_a" "fetched world_have_a = []"
    by (simp_all add: world_have_a_def)
  have c: "client_fail_b ''b'' = Inl (ExternalError ''b'')" "client_fail_b ''c'' = Inr [1, 2]"
    by (simp_all add: client_fail_b_def)
  have n: "fs_have_a \<lparr>anchor = [], segments = [''out'', ''bundles'', ''c'']\<rparr> = None"
      "fs_have_a \<lparr>anchor = [], segments = [''out'', ''c'']\<rparr> = None"
    by (simp_all add: fs_have_a_def)
  show ?thesis
    by (simp add: Save_bundles_def All_download_def Let_def w c n mkdir_bundles_have_a
          plan_bundles_have_a)
qed

text \<open>The completions \<open>c\<close>, \<open>b\<close>, \<open>d\<close>, of which \<open>b\<close> failed.\<close>

theorem drain_stops_at_first_failure_witness:
  "client_fail_b ''b'' = Inl (ExternalError ''b'')
   \<and> fst (bundles_loop (joinpath out0 ''bundles'') client_fail_b [''c''] world_have_a) = None
   \<and> bundles_loop (joinpath out0 ''bundles'') client_fail_b [''c'', ''b'', ''d''] world_have_a
       = (Some (ExternalError ''b''),
          (snd (bundles_loop (joinpath out0 ''bundles'') client_fail_b [''c''] world_have_a))
            \<lparr>logged := logged (snd (bundles_loop (joinpath out0 ''bundles'') client_fail_b [''c'']
                                      world_have_a))
                        @ [LogSavingBundle ''b'']\<rparr>)
   \<and> fst (download_loop \<lparr>output_mb = out0, force = False\<rparr> client_fail_b [''c''] world_have_a)
       = None
   \<and> download_loop \<lparr>output_mb = out0, force = False\<rparr> client_fail_b [''c'', ''b'', ''d'']
        world_have_a
       = (Some (ExternalError ''b''),
          snd (download_loop \<lparr>output_mb = out0, force = False\<rparr> client_fail_b [''c'']
                 world_have_a))"
proof -
  let ?d = "joinpath out0 ''bundles''"
  let ?s = "\<lparr>output_mb = out0, force = False\<rparr>"
  have b: "client_fail_b ''b'' = Inl (ExternalError ''b'')"
    by (simp add: client_fail_b_def)
  have c: "client_fail_b ''c'' = Inr [1, 2]"
    by (simp add: client_fail_b_def)
  have l1: "fst (bundles_loop ?d client_fail_b [''c''] world_have_a) = None"
    by (simp add: c Let_def write_bytes_def world_have_a_def fs_have_a_def path_eval)
  have mk: "mkdir (parent (joinpath out0 ''c'')) fs_have_a = Inr fs_have_a"
    by (rule mkdir_existing_dir)
       (simp add: fs_have_a_def path_eval)
  have l2: "fst (download_loop ?s client_fail_b [''c''] world_have_a) = None"
  proof -
    have wr: "write_bytes (joinpath out0 ''c'') [1, 2] fs_have_a
                = Inr (fs_have_a(joinpath out0 ''c'' \<mapsto> File [1, 2]))"
      by (simp add: write_bytes_def fs_have_a_def path_eval)
    show ?thesis
      by (simp add: c Save_save_def Let_def mk wr world_have_a_def)
  qed
  have e1: "bundles_loop ?d client_fail_b [''c''] world_have_a
              = (None, snd (bundles_loop ?d client_fail_b [''c''] world_have_a))"
    using l1 by (simp add: prod_eq_iff)
  have e2: "download_loop ?s client_fail_b [''c''] world_have_a
              = (None, snd (download_loop ?s client_fail_b [''c''] world_have_a))"
    using l2 by (simp add: prod_eq_iff)
  show ?thesis
    using b l1 l2 e1 e2
      drain_stops_at_first_failure [where get = client_fail_b and b = "''b''"
        and e = "ExternalError ''b''" and out_dir = ?d and xs = "[''c'']" and w = world_have_a
        and ys = "[''d'']" and self = ?s
        and ?w1.0 = "snd (bundles_loop ?d client_fail_b [''c''] world_have_a)"]
      drain_stops_at_first_failure [where get = client_fail_b and b = "''b''"
        and e = "ExternalError ''b''" and out_dir = ?d and xs = "[''c'']" and w = world_have_a
        and ys = "[''d'']" and self = ?s
        and ?w1.0 = "snd (download_loop ?s client_fail_b [''c''] world_have_a)"]
    by simp
qed

section \<open>The on-disk layout\<close>





























end
